theory Spec2Isabelle
  imports Main "HOL-Library.Word"
begin

unbundle bit_operations_syntax

section \<open>Raspberry Pi machine bring-up (hw/arm/raspi.c)\<close>

text \<open>
  C integers are words of their width: \<open>uint64_t\<close>, \<open>hwaddr\<close>, \<open>ram_addr_t\<close> and
  \<open>size_t\<close> are \<open>64 word\<close>, \<open>uint32_t\<close> and \<open>int\<close> are \<open>32 word\<close> (an \<open>int\<close> is
  read through its two's complement bit pattern), a guest byte is \<open>8 word\<close>.
\<close>

type_synonym hwaddr = "64 word"
type_synonym u64 = "64 word"
type_synonym u32 = "32 word"
type_synonym u8 = "8 word"

subsection \<open>Address constants\<close>

definition SMPBOOT_ADDR :: hwaddr where
  "SMPBOOT_ADDR = 0x300"

definition MVBAR_ADDR :: hwaddr where
  "MVBAR_ADDR = 0x400"

definition BOARDSETUP_ADDR :: hwaddr where
  "BOARDSETUP_ADDR = MVBAR_ADDR + 0x20"

definition FIRMWARE_ADDR_2 :: hwaddr where
  "FIRMWARE_ADDR_2 = 0x8000"

definition FIRMWARE_ADDR_3 :: hwaddr where
  "FIRMWARE_ADDR_3 = 0x80000"

definition SPINTABLE_ADDR :: hwaddr where
  "SPINTABLE_ADDR = 0xd8"

text \<open>The unit macros of \<open>qemu/units.h\<close>: \<open>MiB\<close> is \<open>1 << 20\<close>, \<open>GiB\<close> is \<open>1 << 30\<close>.\<close>

definition MiB :: u64 where
  "MiB = 0x100000"

definition GiB :: u64 where
  "GiB = 0x40000000"

subsection \<open>Board identity enumerations\<close>

datatype BoardIdManufacturer = M_SONY_UK | M_EMBEST

fun manufacturer_code :: "BoardIdManufacturer \<Rightarrow> u32" where
  "manufacturer_code M_SONY_UK = 0"
| "manufacturer_code M_EMBEST = 2"

datatype BoardIdChip = C_BCM2835 | C_BCM2836 | C_BCM2837 | C_BCM2711

fun chip_code :: "BoardIdChip \<Rightarrow> u32" where
  "chip_code C_BCM2835 = 0"
| "chip_code C_BCM2836 = 1"
| "chip_code C_BCM2837 = 2"
| "chip_code C_BCM2711 = 3"

datatype BoardIdType = T_2B | T_3B | T_4B

fun type_code :: "BoardIdType \<Rightarrow> u32" where
  "type_code T_2B = 0x04"
| "type_code T_3B = 0x08"
| "type_code T_4B = 0x11"

datatype BoardIdRevision = R_1_0 | R_1_1 | R_1_2 | R_1_3

fun revision_code :: "BoardIdRevision \<Rightarrow> u32" where
  "revision_code R_1_0 = 0"
| "revision_code R_1_1 = 1"
| "revision_code R_1_2 = 2"
| "revision_code R_1_3 = 3"

subsection \<open>The board table\<close>

record board_rev_fields =
  rev_type :: BoardIdType
  rev_revision :: BoardIdRevision
  rev_chip :: BoardIdChip
  rev_manufacturer :: BoardIdManufacturer

record BoardInfo =
  board_id :: u32
  board_rev :: board_rev_fields
  ram_size_min :: u64
  ram_size_max :: u64

text \<open>
  \<open>bcm283x_boards\<close> has designated initialisers at the indices 2, 3 and 4 only. The
  machine init functions pass 2, 3 or 4; any other index has no board (\<open>None\<close>).
\<close>

definition bcm283x_boards :: "int \<Rightarrow> BoardInfo option" where
  "bcm283x_boards version =
     (if version = 2 then Some
        \<lparr>board_id = 0xc43,
         board_rev = \<lparr>rev_type = T_2B, rev_revision = R_1_1,
                      rev_chip = C_BCM2836, rev_manufacturer = M_EMBEST\<rparr>,
         ram_size_min = 1 * GiB,
         ram_size_max = 1 * GiB\<rparr>
      else if version = 3 then Some
        \<lparr>board_id = 0xc44,
         board_rev = \<lparr>rev_type = T_3B, rev_revision = R_1_2,
                      rev_chip = C_BCM2837, rev_manufacturer = M_SONY_UK\<rparr>,
         ram_size_min = 1 * GiB,
         ram_size_max = 1 * GiB\<rparr>
      else if version = 4 then Some
        \<lparr>board_id = 0xc42,
         board_rev = \<lparr>rev_type = T_4B, rev_revision = R_1_1,
                      rev_chip = C_BCM2711, rev_manufacturer = M_SONY_UK\<rparr>,
         ram_size_min = 1 * GiB,
         ram_size_max = 8 * GiB\<rparr>
      else None)"

subsection \<open>Bit helpers of \<open>qemu/host-utils.h\<close>\<close>

text \<open>
  Modelled from the spec: \<open>is_power_of_2\<close> is declared in \<open>qemu/host-utils.h\<close>, which is
  not among the sources. Section 4.2 rejects a value whose bit pattern has more than
  one set bit, and zero is no power of two: the value is nonzero and clearing its lowest
  set bit leaves nothing.
\<close>

definition is_power_of_2 :: "u64 \<Rightarrow> bool" where
  "is_power_of_2 v = (if v = 0 then False else v AND (v - 1) = 0)"

text \<open>
  Modelled from the spec: \<open>clz64\<close> is declared in \<open>qemu/host-utils.h\<close>, which is not
  among the sources. Section 4.3 takes the position of the highest set bit, which is
  \<open>63 - clz64 v\<close>: \<open>clz64\<close> counts the zero bits above the highest set bit, and is 64
  for zero.
\<close>

fun clz_from :: "nat \<Rightarrow> u64 \<Rightarrow> nat" where
  "clz_from 0 v = 0"
| "clz_from (Suc n) v = (if bit v n then 0 else Suc (clz_from n v))"

definition clz64 :: "u64 \<Rightarrow> nat" where
  "clz64 v = clz_from 64 v"

subsection \<open>Machine configuration and errors\<close>

text \<open>
  The fields of \<open>MachineState\<close> that \<open>raspi.c\<close> reads. \<open>firmware\<close> is a file name in
  the source, \<open>NULL\<close> when absent; the model holds the bytes of the file it names.
\<close>

record MachineState =
  ram_size :: u64
  smp_cpus :: u32
  firmware :: "u8 list option"

text \<open>Every \<open>exit(1)\<close> of the source is one error value.\<close>

datatype error =
  RamTooSmall
| RamTooLarge
| RamNotPowerOf2
| NoSdBus
| FirmwareLoadFailed
| NoSuchBoard

subsection \<open>\<open>raspi_init\<close>: the RAM checks and the revision code\<close>

text \<open>Lines 246 to 263 of \<open>raspi_init\<close>: three checks in this order, each ending the process.\<close>

definition raspi_init_check_ram :: "BoardInfo \<Rightarrow> MachineState \<Rightarrow> error + unit" where
  "raspi_init_check_ram board machine =
     (if ram_size machine < ram_size_min board then Inl RamTooSmall
      else if ram_size machine > ram_size_max board then Inl RamTooLarge
      else if \<not> is_power_of_2 (ram_size machine) then Inl RamNotPowerOf2
      else Inr ())"

text \<open>
  Lines 281 to 285 of \<open>raspi_init\<close>: the \<open>int\<close> expression assigned to \<open>board_rev\<close>.
  \<open>63 - clz64 (...)\<close> is an \<open>int\<close> subtraction before the shift.
\<close>

definition raspi_init_board_rev :: "BoardInfo \<Rightarrow> MachineState \<Rightarrow> u32" where
  "raspi_init_board_rev board machine =
     push_bit 20 (63 - of_nat (clz64 (ram_size machine div MiB)))
     OR push_bit 16 (manufacturer_code (rev_manufacturer (board_rev board)))
     OR push_bit 12 (chip_code (rev_chip (board_rev board)))
     OR push_bit 4 (type_code (rev_type (board_rev board)))
     OR push_bit 0 (revision_code (rev_revision (board_rev board)))"

subsection \<open>ROM blobs and guest memory\<close>

type_synonym guest_mem = "hwaddr \<Rightarrow> u8"

record rom_blob =
  rom_name :: string
  rom_data :: "u8 list"
  rom_addr :: hwaddr

text \<open>
  Modelled from the spec: \<open>rom_add_blob_fixed\<close> (\<open>hw/loader.h\<close>) is not among the
  sources. Sections 4.4 and 5 have the injector place a byte sequence at a fixed guest
  address as part of image loading: the call registers the first \<open>len\<close> bytes of the
  blob for the address, and loading the images copies every registered blob into guest
  memory, in the order of registration.
\<close>

definition rom_add_blob_fixed ::
    "string \<Rightarrow> u8 list \<Rightarrow> nat \<Rightarrow> hwaddr \<Rightarrow> rom_blob list \<Rightarrow> rom_blob list" where
  "rom_add_blob_fixed name blob len addr roms =
     roms @ [\<lparr>rom_name = name, rom_data = take len blob, rom_addr = addr\<rparr>]"

definition write_bytes :: "guest_mem \<Rightarrow> hwaddr \<Rightarrow> u8 list \<Rightarrow> guest_mem" where
  "write_bytes mem addr bytes =
     (\<lambda>a. if unat (a - addr) < length bytes then bytes ! unat (a - addr) else mem a)"

definition rom_load :: "rom_blob list \<Rightarrow> guest_mem \<Rightarrow> guest_mem" where
  "rom_load roms mem = fold (\<lambda>r m. write_bytes m (rom_addr r) (rom_data r)) roms mem"

text \<open>The bytes of a C array in memory, little-endian as on the ARM guest.\<close>

definition bytes_of_u32 :: "u32 \<Rightarrow> u8 list" where
  "bytes_of_u32 w = map (\<lambda>i. ucast (drop_bit (8 * i) w)) [0, 1, 2, 3]"

definition bytes_of_u64 :: "u64 \<Rightarrow> u8 list" where
  "bytes_of_u64 w = map (\<lambda>i. ucast (drop_bit (8 * i) w)) [0, 1, 2, 3, 4, 5, 6, 7]"

definition sizeof_u32s :: "u32 list \<Rightarrow> nat" where
  "sizeof_u32s ws = 4 * length ws"

definition sizeof_u64s :: "u64 list \<Rightarrow> nat" where
  "sizeof_u64s ws = 8 * length ws"

text \<open>A 64-bit little-endian load from guest memory, as a core reads a spin-table slot.\<close>

definition ldq :: "guest_mem \<Rightarrow> hwaddr \<Rightarrow> u64" where
  "ldq mem a =
     fold (\<lambda>i acc. acc OR push_bit (8 * i) (ucast (mem (a + of_nat i))))
       [0, 1, 2, 3, 4, 5, 6, 7] 0"

subsection \<open>The boot descriptor\<close>

text \<open>
  The callbacks of \<open>struct arm_boot_info\<close> are function pointers of one type; the
  model names the four functions of \<open>raspi.c\<close> that are stored in them, and \<open>None\<close>
  is the null pointer.
\<close>

datatype boot_hook = Write_board_setup | Write_smpboot | Write_smpboot64 | Reset_secondary

text \<open>
  The fields of \<open>struct arm_boot_info\<close> (\<open>hw/arm/boot.h\<close>) that \<open>raspi.c\<close> assigns.
  \<open>binfo_board_id\<close> and \<open>binfo_ram_size\<close> are the fields \<open>board_id\<close> and
  \<open>ram_size\<close>.
\<close>

record arm_boot_info =
  binfo_board_id :: u32
  binfo_ram_size :: u64
  nb_cpus :: u32
  board_setup_addr :: hwaddr
  write_board_setup :: "boot_hook option"
  secure_board_setup :: bool
  secure_boot :: bool
  smp_loader_start :: hwaddr
  write_secondary_boot :: "boot_hook option"
  secondary_cpu_reset_hook :: "boot_hook option"
  entry :: hwaddr
  firmware_loaded :: bool

text \<open>A C object of static storage duration starts with every field zero.\<close>

definition zero_boot_info :: arm_boot_info where
  "zero_boot_info =
     \<lparr>binfo_board_id = 0, binfo_ram_size = 0, nb_cpus = 0, board_setup_addr = 0,
      write_board_setup = None, secure_board_setup = False, secure_boot = False,
      smp_loader_start = 0, write_secondary_boot = None,
      secondary_cpu_reset_hook = None, entry = 0, firmware_loaded = False\<rparr>"

text \<open>
  \<open>setup_boot\<close> hands the kernel loader \<open>&binfo\<close>, the address of its one
  function-static descriptor, not a copy. The only descriptor of \<open>raspi.c\<close> is that
  static, so a reference has one value.
\<close>

datatype boot_info_ref = Static_binfo

text \<open>
  The state of the process that \<open>setup_boot\<close> reads and writes: its function-static
  \<open>binfo\<close>, the registered ROM blobs, and the reference the kernel loader holds
  (\<open>None\<close> before \<open>arm_load_kernel\<close> is called).
\<close>

record boot_state =
  binfo :: arm_boot_info
  roms :: "rom_blob list"
  loader_info :: "boot_info_ref option"

text \<open>
  What the loader reads through the reference it holds: the present content of the
  static, whichever call wrote it.
\<close>

definition loader_view :: "boot_state \<Rightarrow> arm_boot_info option" where
  "loader_view st =
     (case loader_info st of None \<Rightarrow> None | Some Static_binfo \<Rightarrow> Some (binfo st))"

definition initial_state :: boot_state where
  "initial_state = \<lparr>binfo = zero_boot_info, roms = [], loader_info = None\<rparr>"

record ARMCPU =
  pc :: u64

subsection \<open>The trampoline injectors\<close>

definition smpboot :: "u32 list" where
  "smpboot =
     [0xe1a0e00f,
      0xe3a0fe00 + ucast (drop_bit 4 BOARDSETUP_ADDR),
      0xee100fb0,
      0xe7e10050,
      0xe59f5014,
      0xe320f001,
      0xe7953200,
      0xe3530000,
      0x0afffffb,
      0xe7853200,
      0xe12fff13,
      0x400000cc]"

text \<open>The two \<open>QEMU_BUILD_BUG_ON\<close> conditions of \<open>write_smpboot\<close>: the build fails when one holds.\<close>

definition smpboot_overruns_vectors :: bool where
  "smpboot_overruns_vectors = (SMPBOOT_ADDR + of_nat (sizeof_u32s smpboot) > MVBAR_ADDR)"

definition boardsetup_not_relocatable :: bool where
  "boardsetup_not_relocatable =
     (if BOARDSETUP_ADDR AND 0xf \<noteq> 0 then True else drop_bit 4 BOARDSETUP_ADDR \<ge> 0x100)"

definition write_smpboot :: "ARMCPU \<Rightarrow> arm_boot_info \<Rightarrow> rom_blob list \<Rightarrow> rom_blob list" where
  "write_smpboot cpu info rs =
     rom_add_blob_fixed ''raspi_smpboot'' (concat (map bytes_of_u32 smpboot))
       (sizeof_u32s smpboot) (smp_loader_start info) rs"

definition smpboot64 :: "u32 list" where
  "smpboot64 =
     [0xd2801b05,
      0xd53800a6,
      0x924004c6,
      0xd503205f,
      0xf86678a4,
      0xb4ffffc4,
      0xd2800000,
      0xd2800001,
      0xd2800002,
      0xd2800003,
      0xd61f0080]"

definition spintables :: "u64 list" where
  "spintables = [0, 0, 0, 0]"

definition write_smpboot64 :: "ARMCPU \<Rightarrow> arm_boot_info \<Rightarrow> rom_blob list \<Rightarrow> rom_blob list" where
  "write_smpboot64 cpu info rs =
     rom_add_blob_fixed ''raspi_spintables'' (concat (map bytes_of_u64 spintables))
       (sizeof_u64s spintables) SPINTABLE_ADDR
       (rom_add_blob_fixed ''raspi_smpboot'' (concat (map bytes_of_u32 smpboot64))
          (sizeof_u32s smpboot64) (smp_loader_start info) rs)"

definition reset_secondary :: "ARMCPU \<Rightarrow> arm_boot_info \<Rightarrow> ARMCPU" where
  "reset_secondary cpu info = cpu\<lparr>pc := smp_loader_start info\<rparr>"

subsection \<open>\<open>setup_boot\<close>\<close>

text \<open>
  Modelled from the spec: \<open>load_image_targphys\<close> (\<open>hw/core/loader.c\<close>) is not among
  the sources. Section 4.7 has the load fail when the image does not fit in the space it
  is given (\<open>max_sz\<close> bytes from \<open>addr\<close>); otherwise the image is registered at \<open>addr\<close>
  and its size is returned. A negative result is the failure.
\<close>

definition load_image_targphys ::
    "u8 list \<Rightarrow> hwaddr \<Rightarrow> u64 \<Rightarrow> rom_blob list \<Rightarrow> int \<times> rom_blob list" where
  "load_image_targphys img addr max_sz rs =
     (if length img > unat max_sz then (- 1, rs)
      else (int (length img),
            if length img > 0
            then rs @ [\<lparr>rom_name = ''firmware'', rom_data = img, rom_addr = addr\<rparr>]
            else rs))"

text \<open>
  Modelled from the spec: \<open>arm_load_kernel\<close> (\<open>hw/arm/boot.c\<close>) is not among the
  sources. Section 3 has the external loader consume the descriptor it is handed.
  \<open>setup_boot\<close> passes \<open>&binfo\<close>, so the model records that the loader holds the
  reference to the static and leaves the descriptor as it is.
\<close>

definition arm_load_kernel :: "boot_state \<Rightarrow> boot_state" where
  "arm_load_kernel st = st\<lparr>loader_info := Some Static_binfo\<rparr>"

text \<open>
  \<open>setup_boot\<close> assigns to the fields of its static \<open>binfo\<close> one by one, so the
  descriptor it starts from is the one the previous call left (\<open>binfo st\<close>).
\<close>

definition setup_boot :: "boot_state \<Rightarrow> MachineState \<Rightarrow> int \<Rightarrow> u64 \<Rightarrow> error + boot_state" where
  "setup_boot st machine version ram_sz =
     (case bcm283x_boards version of
        None \<Rightarrow> Inl NoSuchBoard
      | Some board \<Rightarrow>
          let b0 = (binfo st)\<lparr>binfo_board_id := board_id board,
                               binfo_ram_size := ram_sz,
                               nb_cpus := smp_cpus machine\<rparr>;
              b1 = (if version \<le> 2
                    then b0\<lparr>board_setup_addr := BOARDSETUP_ADDR,
                            write_board_setup := Some Write_board_setup,
                            secure_board_setup := True,
                            secure_boot := True\<rparr>
                    else b0);
              b2 = (if version \<ge> 2
                    then b1\<lparr>smp_loader_start := SMPBOOT_ADDR,
                            write_secondary_boot :=
                              Some (if version = 2 then Write_smpboot else Write_smpboot64),
                            secondary_cpu_reset_hook := Some Reset_secondary\<rparr>
                    else b1)
          in (case firmware machine of
                None \<Rightarrow> Inr (arm_load_kernel (st\<lparr>binfo := b2\<rparr>))
              | Some img \<Rightarrow>
                  let firmware_addr = (if version \<ge> 3 then FIRMWARE_ADDR_3 else FIRMWARE_ADDR_2);
                      loaded = load_image_targphys img firmware_addr
                                 (ram_sz - firmware_addr) (roms st)
                  in if fst loaded < 0 then Inl FirmwareLoadFailed
                     else Inr (arm_load_kernel
                            (st\<lparr>binfo := b2\<lparr>entry := firmware_addr, firmware_loaded := True\<rparr>,
                                roms := snd loaded\<rparr>))))"

subsection \<open>\<open>raspi_init\<close>\<close>

text \<open>
  What \<open>raspi_init\<close> reads back from the realised SoC object: whether it has an
  \<open>sd-bus\<close> child bus, and its \<open>vcram-size\<close> property.
\<close>

record soc_model =
  sd_bus_found :: bool
  vcram_size :: u32

text \<open>What a completed \<open>raspi_init\<close> leaves: the \<open>board-rev\<close> property and the boot state.\<close>

record raspi_machine =
  soc_board_rev :: u32
  boot :: boot_state

definition raspi_init ::
    "boot_state \<Rightarrow> MachineState \<Rightarrow> soc_model \<Rightarrow> int \<Rightarrow> error + raspi_machine" where
  "raspi_init st machine soc version =
     (case bcm283x_boards version of
        None \<Rightarrow> Inl NoSuchBoard
      | Some board \<Rightarrow>
          (case raspi_init_check_ram board machine of
             Inl e \<Rightarrow> Inl e
           | Inr _ \<Rightarrow>
               if \<not> sd_bus_found soc then Inl NoSdBus
               else (case setup_boot st machine version
                            (ram_size machine - ucast (vcram_size soc)) of
                       Inl e \<Rightarrow> Inl e
                     | Inr st' \<Rightarrow>
                         Inr \<lparr>soc_board_rev = raspi_init_board_rev board machine,
                              boot = st'\<rparr>)))"

text \<open>The three machine init functions.\<close>

definition raspi2_init :: "boot_state \<Rightarrow> MachineState \<Rightarrow> soc_model \<Rightarrow> error + raspi_machine" where
  "raspi2_init st machine soc = raspi_init st machine soc 2"

definition raspi3_init :: "boot_state \<Rightarrow> MachineState \<Rightarrow> soc_model \<Rightarrow> error + raspi_machine" where
  "raspi3_init st machine soc = raspi_init st machine soc 3"

definition raspi4_init :: "boot_state \<Rightarrow> MachineState \<Rightarrow> soc_model \<Rightarrow> error + raspi_machine" where
  "raspi4_init st machine soc = raspi_init st machine soc 4"

subsection \<open>The revision code as the specification words it\<close>

text \<open>
  Section 4.3 of the specification, in its own words and not taken from the source: the
  revision word has \<open>log2 (ramSize / 1 MiB)\<close> in 6 bits at offset 20, the manufacturer
  in 4 bits at offset 16, the chip generation in 4 bits at offset 12, the board type in
  8 bits at offset 4 and the revision step in 4 bits at offset 0. \<open>spec_field\<close> reads
  the field of a given offset and width back.
\<close>

definition spec_revision_word :: "nat \<Rightarrow> u32 \<Rightarrow> u32 \<Rightarrow> u32 \<Rightarrow> u32 \<Rightarrow> u32" where
  "spec_revision_word ram_log manufacturer chip typ revision =
     push_bit 20 (take_bit 6 (of_nat ram_log))
     OR push_bit 16 (take_bit 4 manufacturer)
     OR push_bit 12 (take_bit 4 chip)
     OR push_bit 4 (take_bit 8 typ)
     OR push_bit 0 (take_bit 4 revision)"

definition spec_field :: "nat \<Rightarrow> nat \<Rightarrow> u32 \<Rightarrow> u32" where
  "spec_field offset width w = take_bit width (drop_bit offset w)"

section \<open>Properties\<close>

subsection \<open>The trampoline blobs\<close>

lemma smpboot_bytes:
  "concat (map bytes_of_u32 smpboot) =
     [15, 224, 160, 225, 66, 254, 160, 227, 176, 15, 16, 238, 80, 0, 225, 231,
      20, 80, 159, 229, 1, 240, 32, 227, 0, 50, 149, 231, 0, 0, 83, 227, 251,
      255, 255, 10, 0, 50, 133, 231, 19, 255, 47, 225, 204, 0, 0, 64]"
  by (simp add: smpboot_def bytes_of_u32_def BOARDSETUP_ADDR_def MVBAR_ADDR_def)

lemma smpboot64_bytes:
  "concat (map bytes_of_u32 smpboot64) =
     [5, 27, 128, 210, 166, 0, 56, 213, 198, 4, 64, 146, 95, 32, 3, 213,
      164, 120, 102, 248, 196, 255, 255, 180, 0, 0, 128, 210, 1, 0, 128, 210,
      2, 0, 128, 210, 3, 0, 128, 210, 128, 0, 31, 214]"
  by (simp add: smpboot64_def bytes_of_u32_def)

lemma spintables_bytes:
  "concat (map bytes_of_u64 spintables) = replicate 32 0"
  by (simp add: spintables_def bytes_of_u64_def eval_nat_numeral)

lemma rom_load_append:
  "rom_load (rs @ [r]) mem = write_bytes (rom_load rs mem) (rom_addr r) (rom_data r)"
  by (simp add: rom_load_def)

text \<open>Reading back, byte by byte, what \<open>write_bytes\<close> copied.\<close>

lemma write_bytes_read_back:
  assumes "length bytes \<le> 2 ^ 64"
  shows "map (\<lambda>i. write_bytes mem addr bytes (addr + of_nat i)) [0..<length bytes] = bytes"
proof (rule nth_equalityI)
  show "length (map (\<lambda>i. write_bytes mem addr bytes (addr + of_nat i)) [0..<length bytes])
          = length bytes" by simp
next
  fix i
  assume "i < length (map (\<lambda>i. write_bytes mem addr bytes (addr + of_nat i)) [0..<length bytes])"
  then have i: "i < length bytes" by simp
  with assms have "i < 2 ^ 64" by simp
  then have "unat (of_nat i :: 64 word) = i"
    by (simp add: unsigned_of_nat take_bit_nat_eq_self)
  with i show "map (\<lambda>i. write_bytes mem addr bytes (addr + of_nat i)) [0..<length bytes] ! i
                 = bytes ! i"
    by (simp add: write_bytes_def)
qed

text \<open>
  C4, as the code has it. \<open>write_smpboot\<close> registers one blob, the same for every CPU,
  descriptor and earlier ROM list, at the address \<open>smp_loader_start\<close> of the descriptor
  it is given. The blob is the array \<open>smpboot\<close>: twelve 32-bit words, 48 bytes, which are
  eleven instruction words followed by the literal word \<open>0x400000cc\<close> that the fifth
  instruction loads. After the ROMs are loaded, guest memory holds these 48 bytes from
  that address on.
\<close>

theorem write_smpboot_blob:
  "write_smpboot cpu info rs =
     rs @ [\<lparr>rom_name = ''raspi_smpboot'',
             rom_data =
               [15, 224, 160, 225, 66, 254, 160, 227, 176, 15, 16, 238, 80, 0, 225, 231,
                20, 80, 159, 229, 1, 240, 32, 227, 0, 50, 149, 231, 0, 0, 83, 227, 251,
                255, 255, 10, 0, 50, 133, 231, 19, 255, 47, 225, 204, 0, 0, 64],
             rom_addr = smp_loader_start info\<rparr>]
   \<and> length smpboot = 12
   \<and> take 11 smpboot =
        [0xe1a0e00f, 0xe3a0fe42, 0xee100fb0, 0xe7e10050, 0xe59f5014, 0xe320f001,
         0xe7953200, 0xe3530000, 0x0afffffb, 0xe7853200, 0xe12fff13]
   \<and> drop 11 smpboot = [0x400000cc]
   \<and> map (\<lambda>i. rom_load (write_smpboot cpu info rs) mem (smp_loader_start info + of_nat i))
        [0..<4 * 12] = concat (map bytes_of_u32 smpboot)"
proof -
  have reg: "write_smpboot cpu info rs =
     rs @ [\<lparr>rom_name = ''raspi_smpboot'', rom_data = concat (map bytes_of_u32 smpboot),
             rom_addr = smp_loader_start info\<rparr>]"
    by (simp add: write_smpboot_def rom_add_blob_fixed_def sizeof_u32s_def smpboot_bytes)
       (simp add: smpboot_def)
  have len: "length (concat (map bytes_of_u32 smpboot)) = 4 * 12"
    by (simp add: smpboot_bytes)
  have mem: "map (\<lambda>i. rom_load (write_smpboot cpu info rs) mem (smp_loader_start info + of_nat i))
        [0..<4 * 12] = concat (map bytes_of_u32 smpboot)"
    unfolding reg rom_load_append
    using write_bytes_read_back [of "concat (map bytes_of_u32 smpboot)" "rom_load rs mem"
        "smp_loader_start info"]
    by (simp add: len)
  have words: "length smpboot = 12"
    "take 11 smpboot =
        [0xe1a0e00f, 0xe3a0fe42, 0xee100fb0, 0xe7e10050, 0xe59f5014, 0xe320f001,
         0xe7953200, 0xe3530000, 0x0afffffb, 0xe7853200, 0xe12fff13]"
    "drop 11 smpboot = [0x400000cc]"
    by (simp_all add: smpboot_def BOARDSETUP_ADDR_def MVBAR_ADDR_def)
  from reg mem words show ?thesis by (simp only: smpboot_bytes)
qed

text \<open>
  C4, as the specification words it: the blob would be eleven words, 44 bytes. The blob that
  \<open>write_smpboot\<close> registers is not 44 bytes long.
\<close>

theorem write_smpboot_eleven_words_counterexample:
  "length (rom_data (last (write_smpboot \<lparr>pc = 0\<rparr> zero_boot_info []))) \<noteq> 4 * 11"
  by (simp add: write_smpboot_def rom_add_blob_fixed_def sizeof_u32s_def smpboot_bytes)
     (simp add: smpboot_def)

text \<open>
  C5: the 32-bit trampoline blob ends before the secure vectors. With the trampoline
  base \<open>0x300\<close> and the vector base \<open>0x400\<close>, \<open>0x300\<close> plus the byte size of the blob
  that \<open>write_smpboot\<close> registers is at most \<open>0x400\<close>. The source checks this with
  \<open>QEMU_BUILD_BUG_ON\<close>: the condition that would fail the build is false, and
  \<open>write_smpboot\<close> itself has no error result.
\<close>

theorem smpboot_fits_before_vectors:
  "SMPBOOT_ADDR = 0x300 \<and> MVBAR_ADDR = 0x400
   \<and> length (rom_data (last (write_smpboot cpu info rs))) = sizeof_u32s smpboot
   \<and> (0x300::nat) + sizeof_u32s smpboot \<le> 0x400
   \<and> \<not> smpboot_overruns_vectors"
  by (simp add: SMPBOOT_ADDR_def MVBAR_ADDR_def write_smpboot_def rom_add_blob_fixed_def
      sizeof_u32s_def smpboot_overruns_vectors_def smpboot_bytes, simp add: smpboot_def)

text \<open>
  C6: \<open>write_smpboot64\<close> registers the instruction sequence at the trampoline base of
  the descriptor and, after it, a block of four 64-bit words, all zero, at the spin-table
  base \<open>0xd8\<close>. Both are ROM blobs, so they are part of image loading: once the ROMs
  registered up to here are loaded, the four slots at \<open>0xd8\<close>, \<open>0xe0\<close>, \<open>0xe8\<close> and
  \<open>0xf0\<close> read as zero, whatever the memory held before.
\<close>

theorem write_smpboot64_zero_slots:
  "write_smpboot64 cpu info rs =
     rs @ [\<lparr>rom_name = ''raspi_smpboot'', rom_data = concat (map bytes_of_u32 smpboot64),
             rom_addr = smp_loader_start info\<rparr>,
           \<lparr>rom_name = ''raspi_spintables'', rom_data = replicate (4 * 8) 0,
             rom_addr = SPINTABLE_ADDR\<rparr>]
   \<and> SPINTABLE_ADDR = 0xd8
   \<and> map (ldq (rom_load (write_smpboot64 cpu info rs) mem)) [0xd8, 0xe0, 0xe8, 0xf0]
       = [0, 0, 0, 0]"
proof -
  have regs: "write_smpboot64 cpu info rs =
     (rs @ [\<lparr>rom_name = ''raspi_smpboot'', rom_data = concat (map bytes_of_u32 smpboot64),
             rom_addr = smp_loader_start info\<rparr>]) @
           [\<lparr>rom_name = ''raspi_spintables'', rom_data = replicate 32 0,
             rom_addr = SPINTABLE_ADDR\<rparr>]"
    by (simp add: write_smpboot64_def rom_add_blob_fixed_def spintables_bytes
        smpboot64_bytes sizeof_u32s_def sizeof_u64s_def)
       (simp add: spintables_def smpboot64_def)
  have rd: "map (ldq (rom_load (write_smpboot64 cpu info rs) mem)) [0xd8, 0xe0, 0xe8, 0xf0]
       = [0, 0, 0, 0]"
    unfolding regs rom_load_append
    by (simp add: ldq_def write_bytes_def SPINTABLE_ADDR_def)
  show ?thesis using regs rd by (simp add: SPINTABLE_ADDR_def)
qed

subsection \<open>Powers of two\<close>

lemma nat_and_pred_pow2:
  fixes m :: nat
  shows "0 < m \<Longrightarrow> m AND (m - 1) = 0 \<Longrightarrow> \<exists>n. m = 2 ^ n"
proof (induction m rule: less_induct)
  case (less m)
  have half: "m div 2 AND (m - 1) div 2 = 0"
    using less.prems(2) by (subst (asm) and_nat_rec) simp
  show ?case
  proof (cases "even m")
    case True
    then obtain k where k: "m = 2 * k" by (auto elim: evenE)
    with less.prems(1) have kpos: "0 < k" by simp
    have "(m - 1) div 2 = k - 1" using k kpos by (cases k) simp_all
    with half k have "k AND (k - 1) = 0" by simp
    moreover have "k < m" using k kpos by simp
    ultimately obtain n where "k = 2 ^ n" using less.IH kpos by blast
    with k have "m = 2 ^ Suc n" by simp
    then show ?thesis by blast
  next
    case False
    then obtain k where k: "m = 2 * k + 1" by (auto elim: oddE)
    then have "(m - 1) div 2 = k" "m div 2 = k" by simp_all
    with half have "k = 0" by simp
    with k have "m = 2 ^ 0" by simp
    then show ?thesis by blast
  qed
qed

lemma word_and_pred_pow2:
  fixes w :: "64 word"
  assumes "w \<noteq> 0" "w AND (w - 1) = 0"
  shows "\<exists>n. unat w = 2 ^ n"
proof -
  have "unat (w AND (w - 1)) = unat w AND unat (w - 1)"
    by (simp add: unsigned_and_eq)
  also have "unat (w - 1) = unat w - 1" using assms(1) by (rule unat_minus_one)
  finally have "unat w AND (unat w - 1) = 0" using assms(2) by simp
  moreover have "0 < unat w" using assms(1) by (simp add: unat_gt_0)
  ultimately show ?thesis by (rule nat_and_pred_pow2[rotated])
qed

lemma pow2_word:
  fixes w :: "64 word"
  assumes "unat w = 2 ^ n"
  shows "n < 64" and "w = 2 ^ n"
proof -
  show n: "n < 64"
  proof (rule ccontr)
    assume "\<not> n < 64"
    then have "(2::nat) ^ 64 \<le> 2 ^ n" by (intro power_increasing) simp_all
    moreover have "unat w < 2 ^ 64" using unsigned_less[of w] by simp
    ultimately show False using assms by simp
  qed
  have "w = of_nat (unat w)" by simp
  also have "\<dots> = 2 ^ n" unfolding assms by simp
  finally show "w = 2 ^ n" .
qed

lemma pow2_and_pred:
  fixes w :: "64 word"
  assumes "unat w = 2 ^ n"
  shows "w \<noteq> 0 \<and> w AND (w - 1) = 0"
proof -
  note n = pow2_word(1)[OF assms] and w = pow2_word(2)[OF assms]
  have "w - 1 = mask n" by (simp add: w mask_eq_exp_minus_1)
  then have "w AND (w - 1) = 0" 
    by (simp add: w) (rule bit_eqI, simp add: bit_and_iff bit_exp_iff bit_mask_iff)
  moreover have "w \<noteq> 0" using n w by simp
  ultimately show ?thesis by simp
qed

lemma is_power_of_2_iff: "is_power_of_2 w = (\<exists>n. unat w = 2 ^ n)"
  using word_and_pred_pow2 [of w] pow2_and_pred [of w]
  by (auto simp: is_power_of_2_def)

lemma set_bits_pow2:
  fixes w :: "64 word"
  shows "(\<exists>n. unat w = 2 ^ n) = (card {n. bit w n} = 1)"
proof
  assume "\<exists>n. unat w = 2 ^ n"
  then obtain n where n: "unat w = 2 ^ n" by blast
  note lt = pow2_word(1)[OF n] and w = pow2_word(2)[OF n]
  have "{k. bit w k} = {n}" using lt by (auto simp: w bit_exp_iff)
  then show "card {n. bit w n} = 1" by simp
next
  assume "card {n. bit w n} = 1"
  then obtain n where s: "{k. bit w k} = {n}" by (auto simp: card_1_singleton_iff)
  then have bn: "bit w n" by blast
  then have lt: "n < 64" by (auto dest: bit_imp_le_length)
  have "w = 2 ^ n"
  proof (rule bit_eqI)
    fix k
    have "bit w k = (k = n)" using s by blast
    then show "bit w k = bit ((2::64 word) ^ n) k" using lt by (auto simp: bit_exp_iff)
  qed
  moreover have "unat ((2::64 word) ^ n) = 2 ^ n"
  proof -
    have "(2::64 word) ^ n = of_nat (2 ^ n)" by simp
    also have "unat \<dots> = take_bit 64 (2 ^ n)" by (simp only: unsigned_of_nat len_num0 len_bit0 len_num1) simp
    also have "\<dots> = 2 ^ n"
    proof (rule take_bit_nat_eq_self)
      show "(2::nat) ^ n < 2 ^ 64" using lt by (rule power_strict_increasing) simp
    qed
    finally show ?thesis .
  qed
  ultimately have "unat w = 2 ^ n" by simp
  then show "\<exists>n. unat w = 2 ^ n" by blast
qed

lemma set_bits_nonzero:
  fixes w :: "64 word"
  assumes "w \<noteq> 0"
  shows "1 \<le> card {n. bit w n}"
proof -
  have fin: "finite {n. bit w n}" by simp
  from assms obtain n where "bit w n" by (auto simp: bit_eq_iff)
  then have "{n. bit w n} \<noteq> {}" by blast
  with fin show ?thesis by (simp add: Suc_le_eq card_gt_0_iff)
qed

lemma accepted_ram_cases:
  assumes "GiB \<le> w" "w \<le> 8 * GiB" "is_power_of_2 w"
  shows "w = GiB \<or> w = 2 * GiB \<or> w = 4 * GiB \<or> w = 8 * GiB"
proof -
  from assms(3) obtain n where n: "unat w = 2 ^ n" by (auto simp: is_power_of_2_iff)
  note w = pow2_word(2)[OF n]
  have "(2::nat) ^ 30 \<le> 2 ^ n" using assms(1) n by (simp add: word_le_nat_alt GiB_def)
  then have lo: "30 \<le> n" by (rule power_le_imp_le_exp[rotated]) simp
  have "(2::nat) ^ n \<le> 2 ^ 33" using assms(2) n by (simp add: word_le_nat_alt GiB_def)
  then have hi: "n \<le> 33" by (rule power_le_imp_le_exp[rotated]) simp
  from lo hi have "n = 30 \<or> n = 31 \<or> n = 32 \<or> n = 33" by arith
  then show ?thesis using w by (auto simp: GiB_def)
qed

subsection \<open>The accepted RAM sizes\<close>

lemma boards_cases:
  assumes "bcm283x_boards version = Some board"
  shows "(version = 2 \<and> board = \<lparr>board_id = 0xc43,
            board_rev = \<lparr>rev_type = T_2B, rev_revision = R_1_1,
                         rev_chip = C_BCM2836, rev_manufacturer = M_EMBEST\<rparr>,
            ram_size_min = GiB, ram_size_max = GiB\<rparr>)
      \<or> (version = 3 \<and> board = \<lparr>board_id = 0xc44,
            board_rev = \<lparr>rev_type = T_3B, rev_revision = R_1_2,
                         rev_chip = C_BCM2837, rev_manufacturer = M_SONY_UK\<rparr>,
            ram_size_min = GiB, ram_size_max = GiB\<rparr>)
      \<or> (version = 4 \<and> board = \<lparr>board_id = 0xc42,
            board_rev = \<lparr>rev_type = T_4B, rev_revision = R_1_1,
                         rev_chip = C_BCM2711, rev_manufacturer = M_SONY_UK\<rparr>,
            ram_size_min = GiB, ram_size_max = 8 * GiB\<rparr>)"
  using assms by (auto simp: bcm283x_boards_def split: if_splits)

lemma board_bounds:
  assumes "bcm283x_boards version = Some board"
  shows "ram_size_min board = GiB"
    and "ram_size_max board = (if version = 4 then 8 * GiB else GiB)"
    and "ram_size_min board \<le> ram_size_max board"
  using boards_cases [OF assms] by (auto simp: GiB_def)

lemma check_ram_ok_iff:
  "(raspi_init_check_ram board machine = Inr ()) =
     (ram_size_min board \<le> ram_size machine \<and> ram_size machine \<le> ram_size_max board
      \<and> is_power_of_2 (ram_size machine))"
  by (auto simp: raspi_init_check_ram_def)

lemma GiB_div_MiB:
  "GiB div MiB = 1024" "2 * GiB div MiB = 2048"
  "4 * GiB div MiB = 4096" "8 * GiB div MiB = 8192"
  by (simp_all add: GiB_def MiB_def)

lemma clz64_values:
  "clz64 1024 = 53" "clz64 2048 = 52" "clz64 4096 = 51" "clz64 8192 = 50"
  by (simp_all add: clz64_def eval_nat_numeral)

lemmas clz64_MiB_counts = clz64_values [folded GiB_div_MiB]

lemma accepted_cases:
  assumes "bcm283x_boards version = Some board"
    and "raspi_init_check_ram board machine = Inr ()"
  shows "(version = 2 \<and> ram_size machine = GiB)
       \<or> (version = 3 \<and> ram_size machine = GiB)
       \<or> (version = 4 \<and> (ram_size machine = GiB \<or> ram_size machine = 2 * GiB
                         \<or> ram_size machine = 4 * GiB \<or> ram_size machine = 8 * GiB))"
proof -
  from assms(2) have ok: "ram_size_min board \<le> ram_size machine"
    "ram_size machine \<le> ram_size_max board" "is_power_of_2 (ram_size machine)"
    by (simp_all add: check_ram_ok_iff)
  note b = board_bounds [OF assms(1)]
  from boards_cases [OF assms(1)] have v: "version = 2 \<or> version = 3 \<or> version = 4" by auto
  show ?thesis
  proof (cases "version = 4")
    case True
    with ok b have "GiB \<le> ram_size machine" "ram_size machine \<le> 8 * GiB" by simp_all
    from accepted_ram_cases [OF this ok(3)] True show ?thesis by simp
  next
    case False
    with ok b have "ram_size machine = GiB" by simp
    with v False show ?thesis by auto
  qed
qed

lemma accepted_board_rev:
  assumes "bcm283x_boards version = Some board"
    and "raspi_init_check_ram board machine = Inr ()"
  shows "(version = 2 \<and> ram_size machine = GiB \<and> raspi_init_board_rev board machine = 0xa21041)
       \<or> (version = 3 \<and> ram_size machine = GiB \<and> raspi_init_board_rev board machine = 0xa02082)
       \<or> (version = 4 \<and> ram_size machine = GiB \<and> raspi_init_board_rev board machine = 0xa03111)
       \<or> (version = 4 \<and> ram_size machine = 2 * GiB \<and> raspi_init_board_rev board machine = 0xb03111)
       \<or> (version = 4 \<and> ram_size machine = 4 * GiB \<and> raspi_init_board_rev board machine = 0xc03111)
       \<or> (version = 4 \<and> ram_size machine = 8 * GiB \<and> raspi_init_board_rev board machine = 0xd03111)"
  using accepted_cases [OF assms] boards_cases [OF assms(1)]
  by (elim disjE conjE) (simp_all add: raspi_init_board_rev_def clz64_MiB_counts)

subsection \<open>RAM validation\<close>

text \<open>
  C2: for every supported model, the RAM checks of \<open>raspi_init\<close> pass exactly when
  the requested size lies in the closed interval from \<open>ram_size_min\<close> to
  \<open>ram_size_max\<close> of the model and is a power of two. They fail with the too-small
  error exactly when the size is below the minimum, with the too-large error exactly when
  it is above the maximum, and with the power-of-two error exactly when the size is
  within the bounds and has more than one set bit: the checks run in this order, and
  the first that fails decides the error. Whatever the failure, \<open>raspi_init\<close> ends
  with that error and builds nothing.
\<close>

theorem raspi_init_ram_validation:
  assumes "bcm283x_boards version = Some board"
  shows "((raspi_init_check_ram board machine = Inr ()) =
            (ram_size_min board \<le> ram_size machine \<and> ram_size machine \<le> ram_size_max board
             \<and> (\<exists>n. unat (ram_size machine) = 2 ^ n)))
       \<and> ((raspi_init_check_ram board machine = Inl RamTooSmall) =
            (ram_size machine < ram_size_min board))
       \<and> ((raspi_init_check_ram board machine = Inl RamTooLarge) =
            (ram_size_max board < ram_size machine))
       \<and> ((raspi_init_check_ram board machine = Inl RamNotPowerOf2) =
            (ram_size_min board \<le> ram_size machine \<and> ram_size machine \<le> ram_size_max board
             \<and> 1 < card {n. bit (ram_size machine) n}))
       \<and> (\<forall>e. raspi_init_check_ram board machine = Inl e \<longrightarrow>
              raspi_init st machine soc version = Inl e)"
proof -
  note b = board_bounds [OF assms]
  have ok: "(raspi_init_check_ram board machine = Inr ()) =
            (ram_size_min board \<le> ram_size machine \<and> ram_size machine \<le> ram_size_max board
             \<and> (\<exists>n. unat (ram_size machine) = 2 ^ n))"
    by (simp add: check_ram_ok_iff is_power_of_2_iff)
  have small: "(raspi_init_check_ram board machine = Inl RamTooSmall) =
            (ram_size machine < ram_size_min board)"
    by (simp add: raspi_init_check_ram_def)
  have large: "(raspi_init_check_ram board machine = Inl RamTooLarge) =
            (ram_size_max board < ram_size machine)"
    using b(3) by (auto simp: raspi_init_check_ram_def)
  have bits: "(\<not> is_power_of_2 (ram_size machine)) = (1 < card {n. bit (ram_size machine) n})"
    if "ram_size_min board \<le> ram_size machine"
  proof -
    from that b(1) have "ram_size machine \<noteq> 0" by (auto simp: GiB_def)
    from set_bits_nonzero [OF this] show ?thesis
      by (auto simp: is_power_of_2_iff set_bits_pow2)
  qed
  have npow: "(raspi_init_check_ram board machine = Inl RamNotPowerOf2) =
            (ram_size_min board \<le> ram_size machine \<and> ram_size machine \<le> ram_size_max board
             \<and> 1 < card {n. bit (ram_size machine) n})"
    using bits by (auto simp: raspi_init_check_ram_def)
  have stop: "\<forall>e. raspi_init_check_ram board machine = Inl e \<longrightarrow>
              raspi_init st machine soc version = Inl e"
    by (simp add: raspi_init_def assms)
  from ok small large npow stop show ?thesis by blast
qed

text \<open>
  The hypothesis of C2 at generation 4 with 10 GiB: the size is above the maximum of
  8 GiB, the check reports it as too large, and \<open>raspi_init\<close> stops there.
\<close>

theorem raspi_init_ram_validation_witness:
  "raspi_init_check_ram
      \<lparr>board_id = 0xc42,
       board_rev = \<lparr>rev_type = T_4B, rev_revision = R_1_1,
                    rev_chip = C_BCM2711, rev_manufacturer = M_SONY_UK\<rparr>,
       ram_size_min = 1 * GiB, ram_size_max = 8 * GiB\<rparr>
      \<lparr>ram_size = 10 * GiB, smp_cpus = 4, firmware = None\<rparr> = Inl RamTooLarge
   \<and> raspi_init initial_state \<lparr>ram_size = 10 * GiB, smp_cpus = 4, firmware = None\<rparr>
        \<lparr>sd_bus_found = True, vcram_size = 0x4000000\<rparr> 4 = Inl RamTooLarge"
proof -
  have b: "bcm283x_boards 4 = Some
      \<lparr>board_id = 0xc42,
       board_rev = \<lparr>rev_type = T_4B, rev_revision = R_1_1,
                    rev_chip = C_BCM2711, rev_manufacturer = M_SONY_UK\<rparr>,
       ram_size_min = 1 * GiB, ram_size_max = 8 * GiB\<rparr>"
    by (simp add: bcm283x_boards_def)
  have "(8 * GiB :: u64) < 10 * GiB" by (simp add: GiB_def)
  with raspi_init_ram_validation [OF b, of "\<lparr>ram_size = 10 * GiB, smp_cpus = 4, firmware = None\<rparr>"
      initial_state "\<lparr>sd_bus_found = True, vcram_size = 0x4000000\<rparr>"]
  show ?thesis by simp
qed

text \<open>
  C10: the table gives generations 2 and 3 the same minimum and maximum, 1 GiB, so the
  RAM checks accept the single size 1 GiB for them and reject every other size. Only
  generation 4 has a range: its checks accept exactly 1, 2, 4 and 8 GiB, the powers of
  two from 1 GiB to 8 GiB.
\<close>

theorem board_ram_ranges:
  "ram_size_min (the (bcm283x_boards 2)) = GiB \<and> ram_size_max (the (bcm283x_boards 2)) = GiB
   \<and> ram_size_min (the (bcm283x_boards 3)) = GiB \<and> ram_size_max (the (bcm283x_boards 3)) = GiB
   \<and> ram_size_min (the (bcm283x_boards 4)) = GiB
   \<and> ram_size_max (the (bcm283x_boards 4)) = 8 * GiB
   \<and> (raspi_init_check_ram (the (bcm283x_boards 2)) machine = Inr ()) = (ram_size machine = GiB)
   \<and> (raspi_init_check_ram (the (bcm283x_boards 3)) machine = Inr ()) = (ram_size machine = GiB)
   \<and> (raspi_init_check_ram (the (bcm283x_boards 4)) machine = Inr ()) =
       (ram_size machine \<in> {GiB, 2 * GiB, 4 * GiB, 8 * GiB})
   \<and> GiB = 2 ^ 30"
proof -
  have p: "is_power_of_2 GiB" "is_power_of_2 (2 * GiB)" "is_power_of_2 (4 * GiB)"
    "is_power_of_2 (8 * GiB)"
    by (simp_all add: is_power_of_2_def GiB_def)
  have b2: "bcm283x_boards 2 = Some (the (bcm283x_boards 2))"
    and b3: "bcm283x_boards 3 = Some (the (bcm283x_boards 3))"
    and b4: "bcm283x_boards 4 = Some (the (bcm283x_boards 4))"
    by (simp_all add: bcm283x_boards_def)
  have r2: "(raspi_init_check_ram (the (bcm283x_boards 2)) machine = Inr ()) =
      (ram_size machine = GiB)"
    using p(1) board_bounds [OF b2] by (auto simp: check_ram_ok_iff)
  have r3: "(raspi_init_check_ram (the (bcm283x_boards 3)) machine = Inr ()) =
      (ram_size machine = GiB)"
    using p(1) board_bounds [OF b3] by (auto simp: check_ram_ok_iff)
  have r4: "(raspi_init_check_ram (the (bcm283x_boards 4)) machine = Inr ()) =
      (ram_size machine \<in> {GiB, 2 * GiB, 4 * GiB, 8 * GiB})"
  proof
    assume "raspi_init_check_ram (the (bcm283x_boards 4)) machine = Inr ()"
    from accepted_cases [OF b4 this] show "ram_size machine \<in> {GiB, 2 * GiB, 4 * GiB, 8 * GiB}"
      by auto
  next
    assume "ram_size machine \<in> {GiB, 2 * GiB, 4 * GiB, 8 * GiB}"
    then show "raspi_init_check_ram (the (bcm283x_boards 4)) machine = Inr ()"
      using p board_bounds [OF b4] by (auto simp: check_ram_ok_iff) (simp_all add: GiB_def)
  qed
  show ?thesis
    using board_bounds [OF b2] board_bounds [OF b3] board_bounds [OF b4] r2 r3 r4
    by (simp add: GiB_def)
qed

subsection \<open>The revision code\<close>

text \<open>
  C1: for every supported model and every RAM size that the RAM checks accept, the
  revision code computed by \<open>raspi_init\<close> is the word of the specification: some
  \<open>l\<close> with \<open>ramSize = 2 ^ l MiB\<close> stands in the 6-bit field at offset 20, the
  manufacturer code in the 4-bit field at offset 16, the chip code in the 4-bit field at
  offset 12, the board type in the 8-bit field at offset 4 and the revision step in the
  4-bit field at offset 0; each field reads back unchanged and the bits above the fields
  are zero. For generation 2 with 1 GiB the chip field is 1, the manufacturer field 2,
  the type field 4, the revision field 1 and the RAM field 10.
\<close>

theorem board_rev_layout:
  assumes "bcm283x_boards version = Some board"
    and "raspi_init_check_ram board machine = Inr ()"
  shows "(\<exists>l. unat (ram_size machine) = 2 ^ l * unat MiB
            \<and> raspi_init_board_rev board machine =
                spec_revision_word l
                  (manufacturer_code (rev_manufacturer (board_rev board)))
                  (chip_code (rev_chip (board_rev board)))
                  (type_code (rev_type (board_rev board)))
                  (revision_code (rev_revision (board_rev board)))
            \<and> spec_field 20 6 (raspi_init_board_rev board machine) = of_nat l)
       \<and> spec_field 16 4 (raspi_init_board_rev board machine) =
            manufacturer_code (rev_manufacturer (board_rev board))
       \<and> spec_field 12 4 (raspi_init_board_rev board machine) =
            chip_code (rev_chip (board_rev board))
       \<and> spec_field 4 8 (raspi_init_board_rev board machine) =
            type_code (rev_type (board_rev board))
       \<and> spec_field 0 4 (raspi_init_board_rev board machine) =
            revision_code (rev_revision (board_rev board))
       \<and> drop_bit 26 (raspi_init_board_rev board machine) = 0
       \<and> spec_field 12 4 (raspi_init_board_rev (the (bcm283x_boards 2))
            \<lparr>ram_size = 1 * GiB, smp_cpus = cpus, firmware = fw\<rparr>) = 1
       \<and> spec_field 16 4 (raspi_init_board_rev (the (bcm283x_boards 2))
            \<lparr>ram_size = 1 * GiB, smp_cpus = cpus, firmware = fw\<rparr>) = 2
       \<and> spec_field 4 8 (raspi_init_board_rev (the (bcm283x_boards 2))
            \<lparr>ram_size = 1 * GiB, smp_cpus = cpus, firmware = fw\<rparr>) = 4
       \<and> spec_field 0 4 (raspi_init_board_rev (the (bcm283x_boards 2))
            \<lparr>ram_size = 1 * GiB, smp_cpus = cpus, firmware = fw\<rparr>) = 1
       \<and> spec_field 20 6 (raspi_init_board_rev (the (bcm283x_boards 2))
            \<lparr>ram_size = 1 * GiB, smp_cpus = cpus, firmware = fw\<rparr>) = 10"
proof -
  let ?w = "raspi_init_board_rev board machine"
  let ?P = "\<lambda>l. unat (ram_size machine) = 2 ^ l * unat MiB
            \<and> ?w = spec_revision_word l
                  (manufacturer_code (rev_manufacturer (board_rev board)))
                  (chip_code (rev_chip (board_rev board)))
                  (type_code (rev_type (board_rev board)))
                  (revision_code (rev_revision (board_rev board)))
            \<and> spec_field 20 6 ?w = of_nat l"
  note cases = accepted_board_rev [OF assms] and b = boards_cases [OF assms(1)]
  have "?P 10 \<or> ?P 11 \<or> ?P 12 \<or> ?P 13"
    using cases b
    by (elim disjE conjE)
       (simp_all add: spec_revision_word_def spec_field_def GiB_def MiB_def)
  then have log: "\<exists>l. ?P l" by blast
  have fields: "spec_field 16 4 ?w = manufacturer_code (rev_manufacturer (board_rev board))"
    "spec_field 12 4 ?w = chip_code (rev_chip (board_rev board))"
    "spec_field 4 8 ?w = type_code (rev_type (board_rev board))"
    "spec_field 0 4 ?w = revision_code (rev_revision (board_rev board))"
    "drop_bit 26 ?w = 0"
    using cases b
    by (elim disjE conjE; simp add: spec_field_def)+
  have ex: "raspi_init_board_rev (the (bcm283x_boards 2))
            \<lparr>ram_size = 1 * GiB, smp_cpus = cpus, firmware = fw\<rparr> = 0xa21041"
    by (simp add: raspi_init_board_rev_def bcm283x_boards_def clz64_MiB_counts)
  show ?thesis
    unfolding ex using log fields by (simp add: spec_field_def)
qed

text \<open>
  The hypotheses of C1 at generation 4 with 8 GiB, which the RAM checks accept: the chip
  field is 3 and the type field is \<open>0x11\<close>.
\<close>

theorem board_rev_layout_witness:
  "spec_field 12 4 (raspi_init_board_rev
      \<lparr>board_id = 0xc42,
       board_rev = \<lparr>rev_type = T_4B, rev_revision = R_1_1,
                    rev_chip = C_BCM2711, rev_manufacturer = M_SONY_UK\<rparr>,
       ram_size_min = 1 * GiB, ram_size_max = 8 * GiB\<rparr>
      \<lparr>ram_size = 8 * GiB, smp_cpus = 4, firmware = None\<rparr>) = 3
   \<and> spec_field 4 8 (raspi_init_board_rev
      \<lparr>board_id = 0xc42,
       board_rev = \<lparr>rev_type = T_4B, rev_revision = R_1_1,
                    rev_chip = C_BCM2711, rev_manufacturer = M_SONY_UK\<rparr>,
       ram_size_min = 1 * GiB, ram_size_max = 8 * GiB\<rparr>
      \<lparr>ram_size = 8 * GiB, smp_cpus = 4, firmware = None\<rparr>) = 0x11"
proof -
  have b: "bcm283x_boards 4 = Some
      \<lparr>board_id = 0xc42,
       board_rev = \<lparr>rev_type = T_4B, rev_revision = R_1_1,
                    rev_chip = C_BCM2711, rev_manufacturer = M_SONY_UK\<rparr>,
       ram_size_min = 1 * GiB, ram_size_max = 8 * GiB\<rparr>"
    by (simp add: bcm283x_boards_def)
  have ok: "raspi_init_check_ram
      \<lparr>board_id = 0xc42,
       board_rev = \<lparr>rev_type = T_4B, rev_revision = R_1_1,
                    rev_chip = C_BCM2711, rev_manufacturer = M_SONY_UK\<rparr>,
       ram_size_min = 1 * GiB, ram_size_max = 8 * GiB\<rparr>
      \<lparr>ram_size = 8 * GiB, smp_cpus = 4, firmware = None\<rparr> = Inr ()"
    by (simp add: raspi_init_check_ram_def is_power_of_2_def GiB_def)
  from board_rev_layout [OF b ok] show ?thesis by simp
qed

text \<open>
  C9: the revision code is injective on the accepted pairs. Two pairs of a supported
  model and a RAM size that its checks accept, differing in the model or in the RAM
  size, have different revision words.
\<close>

theorem board_rev_injective:
  assumes "bcm283x_boards v1 = Some b1" and "raspi_init_check_ram b1 m1 = Inr ()"
    and "bcm283x_boards v2 = Some b2" and "raspi_init_check_ram b2 m2 = Inr ()"
    and "v1 \<noteq> v2 \<or> ram_size m1 \<noteq> ram_size m2"
  shows "raspi_init_board_rev b1 m1 \<noteq> raspi_init_board_rev b2 m2"
  using accepted_board_rev [OF assms(1,2)] accepted_board_rev [OF assms(3,4)] assms(5)
  by (elim disjE conjE) (simp_all add: GiB_def)

text \<open>
  The hypotheses of C9 at generation 4 with 2 GiB and with 4 GiB: both sizes are
  accepted, and the two revision words differ.
\<close>

theorem board_rev_injective_witness:
  "raspi_init_board_rev
      \<lparr>board_id = 0xc42,
       board_rev = \<lparr>rev_type = T_4B, rev_revision = R_1_1,
                    rev_chip = C_BCM2711, rev_manufacturer = M_SONY_UK\<rparr>,
       ram_size_min = 1 * GiB, ram_size_max = 8 * GiB\<rparr>
      \<lparr>ram_size = 2 * GiB, smp_cpus = 4, firmware = None\<rparr>
   \<noteq> raspi_init_board_rev
      \<lparr>board_id = 0xc42,
       board_rev = \<lparr>rev_type = T_4B, rev_revision = R_1_1,
                    rev_chip = C_BCM2711, rev_manufacturer = M_SONY_UK\<rparr>,
       ram_size_min = 1 * GiB, ram_size_max = 8 * GiB\<rparr>
      \<lparr>ram_size = 4 * GiB, smp_cpus = 4, firmware = None\<rparr>"
proof -
  have b: "bcm283x_boards 4 = Some
      \<lparr>board_id = 0xc42,
       board_rev = \<lparr>rev_type = T_4B, rev_revision = R_1_1,
                    rev_chip = C_BCM2711, rev_manufacturer = M_SONY_UK\<rparr>,
       ram_size_min = 1 * GiB, ram_size_max = 8 * GiB\<rparr>"
    by (simp add: bcm283x_boards_def)
  have ok: "raspi_init_check_ram
      \<lparr>board_id = 0xc42,
       board_rev = \<lparr>rev_type = T_4B, rev_revision = R_1_1,
                    rev_chip = C_BCM2711, rev_manufacturer = M_SONY_UK\<rparr>,
       ram_size_min = 1 * GiB, ram_size_max = 8 * GiB\<rparr>
      \<lparr>ram_size = r, smp_cpus = 4, firmware = None\<rparr> = Inr ()"
    if "r = 2 * GiB \<or> r = 4 * GiB" for r
    using that by (auto simp: raspi_init_check_ram_def is_power_of_2_def GiB_def)
  have ne: "(4::int) \<noteq> 4 \<or> ram_size \<lparr>ram_size = 2 * GiB, smp_cpus = 4, firmware = None\<rparr>
      \<noteq> ram_size \<lparr>ram_size = 4 * GiB, smp_cpus = 4, firmware = None\<rparr>"
    by (simp add: GiB_def)
  show ?thesis
    by (rule board_rev_injective [OF b ok b ok ne]) simp_all
qed

subsection \<open>The boot descriptor built by \<open>setup_boot\<close>\<close>

text \<open>
  What \<open>setup_boot\<close> computes for a supported generation, without and with a
  firmware image.
\<close>

lemma setup_boot_no_firmware:
  assumes "bcm283x_boards version = Some board" and "firmware machine = None"
  shows "setup_boot st machine version ram_sz =
     Inr (arm_load_kernel (st\<lparr>binfo :=
       (let b0 = (binfo st)\<lparr>binfo_board_id := board_id board,
                               binfo_ram_size := ram_sz,
                               nb_cpus := smp_cpus machine\<rparr>;
            b1 = (if version = 2
                  then b0\<lparr>board_setup_addr := BOARDSETUP_ADDR,
                          write_board_setup := Some Write_board_setup,
                          secure_board_setup := True,
                          secure_boot := True\<rparr>
                  else b0)
        in b1\<lparr>smp_loader_start := SMPBOOT_ADDR,
              write_secondary_boot :=
                Some (if version = 2 then Write_smpboot else Write_smpboot64),
              secondary_cpu_reset_hook := Some Reset_secondary\<rparr>)\<rparr>))"
  using assms boards_cases [OF assms(1)]
  by (auto simp: setup_boot_def Let_def)

lemma setup_boot_firmware:
  assumes "bcm283x_boards version = Some board" and "firmware machine = Some img"
  shows "setup_boot st machine version ram_sz =
     (let addr = (if version = 2 then FIRMWARE_ADDR_2 else FIRMWARE_ADDR_3) in
      if unat (ram_sz - addr) < length img then Inl FirmwareLoadFailed
      else Inr (arm_load_kernel (st\<lparr>binfo :=
       (let b0 = (binfo st)\<lparr>binfo_board_id := board_id board,
                               binfo_ram_size := ram_sz,
                               nb_cpus := smp_cpus machine\<rparr>;
            b1 = (if version = 2
                  then b0\<lparr>board_setup_addr := BOARDSETUP_ADDR,
                          write_board_setup := Some Write_board_setup,
                          secure_board_setup := True,
                          secure_boot := True\<rparr>
                  else b0)
        in b1\<lparr>smp_loader_start := SMPBOOT_ADDR,
              write_secondary_boot :=
                Some (if version = 2 then Write_smpboot else Write_smpboot64),
              secondary_cpu_reset_hook := Some Reset_secondary,
              entry := addr, firmware_loaded := True\<rparr>),
         roms := (if img = [] then roms st
                  else roms st @ [\<lparr>rom_name = ''firmware'', rom_data = img,
                                    rom_addr = addr\<rparr>])\<rparr>)))"
  using assms boards_cases [OF assms(1)]
  by (auto simp: setup_boot_def Let_def load_image_targphys_def)

text \<open>
  C3, as the code has it. For every supported generation and every state of the static
  descriptor, \<open>setup_boot\<close> either fails to load a supplied firmware image or leaves a
  descriptor whose secondary boot hook is the 32-bit injector exactly for generation 2
  and the 64-bit injector exactly for generations from 3 on, and whose secondary reset
  hook is set exactly for generations from 2 on. The secure setup hook, address and
  flags are set for a generation that is at most 2; for a later generation they stay as
  the descriptor held them before the call. So from the zeroed descriptor of a new
  process the secure setup hook is installed if and only if the generation is at most 2,
  and a generation-3 machine with 1 GiB of RAM and no firmware, built first in its
  process, has secure setup off, the 64-bit injector and the board id \<open>0xc44\<close>.
\<close>

theorem setup_boot_decision_table:
  assumes "bcm283x_boards version = Some board"
  shows "(case setup_boot st machine version ram_sz of
            Inl e \<Rightarrow> e = FirmwareLoadFailed \<and> firmware machine \<noteq> None
          | Inr st' \<Rightarrow>
              (write_secondary_boot (binfo st') = Some Write_smpboot) = (version = 2)
              \<and> (write_secondary_boot (binfo st') = Some Write_smpboot64) = (version \<ge> 3)
              \<and> (secondary_cpu_reset_hook (binfo st') = Some Reset_secondary) = (version \<ge> 2)
              \<and> smp_loader_start (binfo st') = SMPBOOT_ADDR
              \<and> binfo_board_id (binfo st') = board_id board
              \<and> (if version \<le> 2
                  then secure_board_setup (binfo st') \<and> secure_boot (binfo st')
                     \<and> write_board_setup (binfo st') = Some Write_board_setup
                     \<and> board_setup_addr (binfo st') = BOARDSETUP_ADDR
                  else secure_board_setup (binfo st') = secure_board_setup (binfo st)
                     \<and> secure_boot (binfo st') = secure_boot (binfo st)
                     \<and> write_board_setup (binfo st') = write_board_setup (binfo st)
                     \<and> board_setup_addr (binfo st') = board_setup_addr (binfo st))
              \<and> (binfo st = zero_boot_info \<longrightarrow>
                    secure_board_setup (binfo st') = (version \<le> 2)
                    \<and> secure_boot (binfo st') = (version \<le> 2)
                    \<and> (write_board_setup (binfo st') = Some Write_board_setup) = (version \<le> 2)
                    \<and> (write_board_setup (binfo st') = None) = (version > 2)))
       \<and> (case raspi3_init initial_state
                  \<lparr>ram_size = 1 * GiB, smp_cpus = cpus, firmware = None\<rparr>
                  \<lparr>sd_bus_found = True, vcram_size = vcram\<rparr> of
            Inl e \<Rightarrow> False
          | Inr m \<Rightarrow>
              secure_board_setup (binfo (boot m)) = False
              \<and> secure_boot (binfo (boot m)) = False
              \<and> write_board_setup (binfo (boot m)) = None
              \<and> write_secondary_boot (binfo (boot m)) = Some Write_smpboot64
              \<and> binfo_board_id (binfo (boot m)) = 0xc44)"
proof -
  from boards_cases [OF assms] have v: "version = 2 \<or> version = 3 \<or> version = 4" by auto
  have table: "case setup_boot st machine version ram_sz of
            Inl e \<Rightarrow> e = FirmwareLoadFailed \<and> firmware machine \<noteq> None
          | Inr st' \<Rightarrow>
              (write_secondary_boot (binfo st') = Some Write_smpboot) = (version = 2)
              \<and> (write_secondary_boot (binfo st') = Some Write_smpboot64) = (version \<ge> 3)
              \<and> (secondary_cpu_reset_hook (binfo st') = Some Reset_secondary) = (version \<ge> 2)
              \<and> smp_loader_start (binfo st') = SMPBOOT_ADDR
              \<and> binfo_board_id (binfo st') = board_id board
              \<and> (if version \<le> 2
                  then secure_board_setup (binfo st') \<and> secure_boot (binfo st')
                     \<and> write_board_setup (binfo st') = Some Write_board_setup
                     \<and> board_setup_addr (binfo st') = BOARDSETUP_ADDR
                  else secure_board_setup (binfo st') = secure_board_setup (binfo st)
                     \<and> secure_boot (binfo st') = secure_boot (binfo st)
                     \<and> write_board_setup (binfo st') = write_board_setup (binfo st)
                     \<and> board_setup_addr (binfo st') = board_setup_addr (binfo st))
              \<and> (binfo st = zero_boot_info \<longrightarrow>
                    secure_board_setup (binfo st') = (version \<le> 2)
                    \<and> secure_boot (binfo st') = (version \<le> 2)
                    \<and> (write_board_setup (binfo st') = Some Write_board_setup) = (version \<le> 2)
                    \<and> (write_board_setup (binfo st') = None) = (version > 2))"
  proof (cases "firmware machine")
    case None
    show ?thesis
      unfolding setup_boot_no_firmware [OF assms None]
      using v by (auto simp: arm_load_kernel_def zero_boot_info_def)
  next
    case (Some img)
    show ?thesis
      unfolding setup_boot_firmware [OF assms Some]
      using v Some by (auto simp: arm_load_kernel_def zero_boot_info_def Let_def)
  qed
  have ex: "case raspi3_init initial_state
                  \<lparr>ram_size = 1 * GiB, smp_cpus = cpus, firmware = None\<rparr>
                  \<lparr>sd_bus_found = True, vcram_size = vcram\<rparr> of
            Inl e \<Rightarrow> False
          | Inr m \<Rightarrow>
              secure_board_setup (binfo (boot m)) = False
              \<and> secure_boot (binfo (boot m)) = False
              \<and> write_board_setup (binfo (boot m)) = None
              \<and> write_secondary_boot (binfo (boot m)) = Some Write_smpboot64
              \<and> binfo_board_id (binfo (boot m)) = 0xc44"
    by (simp add: raspi3_init_def raspi_init_def bcm283x_boards_def raspi_init_check_ram_def
        is_power_of_2_def GiB_def setup_boot_def Let_def arm_load_kernel_def
        initial_state_def zero_boot_info_def)
  from table ex show ?thesis by blast
qed

text \<open>
  The hypothesis of C3's theorem at generation 3, from the descriptor that a generation-2
  call left: the 64-bit injector replaces the 32-bit one and the board id becomes
  \<open>0xc44\<close>, while the secure setup fields keep what the earlier call wrote.
\<close>

theorem setup_boot_decision_table_witness:
  "setup_boot
      \<lparr>binfo =
         \<lparr>binfo_board_id = 0xc43, binfo_ram_size = 0x3c000000, nb_cpus = 4,
          board_setup_addr = 0x420, write_board_setup = Some Write_board_setup,
          secure_board_setup = True, secure_boot = True, smp_loader_start = 0x300,
          write_secondary_boot = Some Write_smpboot,
          secondary_cpu_reset_hook = Some Reset_secondary, entry = 0,
          firmware_loaded = False\<rparr>,
       roms = [], loader_info = Some Static_binfo\<rparr>
      \<lparr>ram_size = 1 * GiB, smp_cpus = 4, firmware = None\<rparr> 3 0x3c000000 =
     Inr \<lparr>binfo =
         \<lparr>binfo_board_id = 0xc44, binfo_ram_size = 0x3c000000, nb_cpus = 4,
          board_setup_addr = 0x420, write_board_setup = Some Write_board_setup,
          secure_board_setup = True, secure_boot = True, smp_loader_start = 0x300,
          write_secondary_boot = Some Write_smpboot64,
          secondary_cpu_reset_hook = Some Reset_secondary, entry = 0,
          firmware_loaded = False\<rparr>,
       roms = [], loader_info = Some Static_binfo\<rparr>"
proof -
  have b: "bcm283x_boards 3 = Some (the (bcm283x_boards 3))"
    by (simp add: bcm283x_boards_def)
  from setup_boot_decision_table [OF b, where machine = "\<lparr>ram_size = 1 * GiB, smp_cpus = 4, firmware = None\<rparr>"
      and ram_sz = "0x3c000000" and st = "\<lparr>binfo =
         \<lparr>binfo_board_id = 0xc43, binfo_ram_size = 0x3c000000, nb_cpus = 4,
          board_setup_addr = 0x420, write_board_setup = Some Write_board_setup,
          secure_board_setup = True, secure_boot = True, smp_loader_start = 0x300,
          write_secondary_boot = Some Write_smpboot,
          secondary_cpu_reset_hook = Some Reset_secondary, entry = 0,
          firmware_loaded = False\<rparr>,
       roms = [], loader_info = Some Static_binfo\<rparr>"]
  show ?thesis
    by (simp add: setup_boot_def bcm283x_boards_def arm_load_kernel_def
        SMPBOOT_ADDR_def Let_def)
qed

text \<open>
  C3, as the specification words it: the secure setup hook would be installed only for a
  generation that is at most 2, and a generation-3 board with 1 GiB and no firmware would
  have secure setup disabled. After a generation-2 call in the same process,
  \<open>raspi3_init\<close> with 1 GiB and no firmware leaves the secure setup hook and both
  secure flags set, although 3 is not at most 2.
\<close>

theorem setup_boot_decision_table_counterexample:
  "setup_boot initial_state \<lparr>ram_size = 1 * GiB, smp_cpus = 4, firmware = None\<rparr> 2 0x3c000000 =
     Inr \<lparr>binfo =
         \<lparr>binfo_board_id = 0xc43, binfo_ram_size = 0x3c000000, nb_cpus = 4,
          board_setup_addr = 0x420, write_board_setup = Some Write_board_setup,
          secure_board_setup = True, secure_boot = True, smp_loader_start = 0x300,
          write_secondary_boot = Some Write_smpboot,
          secondary_cpu_reset_hook = Some Reset_secondary, entry = 0,
          firmware_loaded = False\<rparr>,
       roms = [], loader_info = Some Static_binfo\<rparr>
   \<and> raspi3_init
      \<lparr>binfo =
         \<lparr>binfo_board_id = 0xc43, binfo_ram_size = 0x3c000000, nb_cpus = 4,
          board_setup_addr = 0x420, write_board_setup = Some Write_board_setup,
          secure_board_setup = True, secure_boot = True, smp_loader_start = 0x300,
          write_secondary_boot = Some Write_smpboot,
          secondary_cpu_reset_hook = Some Reset_secondary, entry = 0,
          firmware_loaded = False\<rparr>,
       roms = [], loader_info = Some Static_binfo\<rparr>
      \<lparr>ram_size = 1 * GiB, smp_cpus = 4, firmware = None\<rparr>
      \<lparr>sd_bus_found = True, vcram_size = 0x4000000\<rparr> =
     Inr \<lparr>soc_board_rev = 0xa02082,
          boot = \<lparr>binfo =
             \<lparr>binfo_board_id = 0xc44, binfo_ram_size = 0x3c000000, nb_cpus = 4,
              board_setup_addr = 0x420, write_board_setup = Some Write_board_setup,
              secure_board_setup = True, secure_boot = True, smp_loader_start = 0x300,
              write_secondary_boot = Some Write_smpboot64,
              secondary_cpu_reset_hook = Some Reset_secondary, entry = 0,
              firmware_loaded = False\<rparr>,
           roms = [], loader_info = Some Static_binfo\<rparr>\<rparr>
   \<and> \<not> ((3::int) \<le> 2)"
  by (simp add: raspi3_init_def raspi_init_def raspi_init_check_ram_def is_power_of_2_def
      raspi_init_board_rev_def GiB_div_MiB [unfolded GiB_def MiB_def] clz64_values
      setup_boot_def bcm283x_boards_def arm_load_kernel_def initial_state_def
      zero_boot_info_def BOARDSETUP_ADDR_def MVBAR_ADDR_def SMPBOOT_ADDR_def Let_def GiB_def MiB_def)

subsection \<open>Loading a firmware image\<close>

text \<open>
  Where the usable RAM reaches the load address, \<open>ram_size - firmware_addr\<close> does not
  wrap: the firmware error is reported exactly when the load address plus the image size
  exceeds the usable RAM size, and otherwise the image is registered at the load
  address, \<open>0x8000\<close> for generation 2 and \<open>0x80000\<close> for generations 3 and 4, which
  becomes \<open>entry\<close> with \<open>firmware_loaded\<close> set.
\<close>

lemma setup_boot_firmware_in_range:
  assumes "bcm283x_boards version = Some board"
    and "firmware machine = Some img"
    and "(if version = 2 then 0x8000 else 0x80000) \<le> ram_sz"
  shows "(setup_boot st machine version ram_sz = Inl FirmwareLoadFailed) =
           (unat ram_sz < (if version = 2 then 0x8000 else 0x80000) + length img)
       \<and> ((if version = 2 then 0x8000 else 0x80000) + length img \<le> unat ram_sz \<longrightarrow>
            (\<exists>st'. setup_boot st machine version ram_sz = Inr st'
                 \<and> entry (binfo st') = (if version = 2 then 0x8000 else 0x80000)
                 \<and> firmware_loaded (binfo st')
                 \<and> roms st' =
                     (if img = [] then roms st
                      else roms st @ [\<lparr>rom_name = ''firmware'', rom_data = img,
                             rom_addr = (if version = 2 then 0x8000 else 0x80000)\<rparr>])))"
proof -
  let ?a = "if version = 2 then 0x8000 else 0x80000 :: hwaddr"
  have addr: "(if version = 2 then FIRMWARE_ADDR_2 else FIRMWARE_ADDR_3) = ?a"
    by (simp add: FIRMWARE_ADDR_2_def FIRMWARE_ADDR_3_def)
  have ua: "unat ?a = (if version = 2 then 0x8000 else 0x80000)" by simp
  have le: "?a \<le> ram_sz" using assms(3) by (simp split: if_splits)
  then have space: "unat (ram_sz - ?a) = unat ram_sz - unat ?a"
    by (rule unat_sub)
  have ule: "unat ?a \<le> unat ram_sz" using le by (simp only: word_le_nat_alt)
  note sb = setup_boot_firmware [OF assms(1,2), of st ram_sz, unfolded Let_def addr]
  have fail: "(setup_boot st machine version ram_sz = Inl FirmwareLoadFailed) =
           (unat ram_sz < unat ?a + length img)"
    unfolding sb space using ule by auto
  have good: "unat ?a + length img \<le> unat ram_sz \<longrightarrow>
            (\<exists>st'. setup_boot st machine version ram_sz = Inr st'
                 \<and> entry (binfo st') = ?a
                 \<and> firmware_loaded (binfo st')
                 \<and> roms st' =
                     (if img = [] then roms st
                      else roms st @ [\<lparr>rom_name = ''firmware'', rom_data = img,
                             rom_addr = ?a\<rparr>]))"
    unfolding sb space using ule by (auto simp: arm_load_kernel_def)
  from fail [unfolded ua] good [unfolded ua] show ?thesis by (intro conjI)
qed

text \<open>
  C7, at an input where the code departs from it. The property is that \<open>setup_boot\<close>
  fails exactly when the firmware image does not fit between its load address and the
  end of usable RAM. A generation-2 machine with 1 GiB of RAM, a video memory size of
  \<open>0x3FFFF000\<close> and a one-byte firmware image has \<open>0x1000\<close> bytes of usable RAM,
  below the load address \<open>0x8000\<close>. The unsigned subtraction
  \<open>ram_size - firmware_addr\<close> wraps to \<open>0xFFFFFFFFFFFF9000\<close>, the image is accepted
  and registered at \<open>0x8000\<close>, and \<open>raspi2_init\<close> completes, although
  \<open>0x1000 < 0x8000 + 1\<close>.
\<close>

theorem raspi2_init_firmware_beyond_ram:
  "raspi2_init initial_state
      \<lparr>ram_size = 1 * GiB, smp_cpus = 4, firmware = Some [0xea]\<rparr>
      \<lparr>sd_bus_found = True, vcram_size = 0x3FFFF000\<rparr> =
     Inr \<lparr>soc_board_rev = 0xa21041,
          boot = \<lparr>binfo =
             \<lparr>binfo_board_id = 0xc43, binfo_ram_size = 0x1000, nb_cpus = 4,
              board_setup_addr = 0x420, write_board_setup = Some Write_board_setup,
              secure_board_setup = True, secure_boot = True, smp_loader_start = 0x300,
              write_secondary_boot = Some Write_smpboot,
              secondary_cpu_reset_hook = Some Reset_secondary, entry = 0x8000,
              firmware_loaded = True\<rparr>,
           roms = [\<lparr>rom_name = ''firmware'', rom_data = [0xea], rom_addr = 0x8000\<rparr>],
           loader_info = Some Static_binfo\<rparr>\<rparr>
   \<and> (0x1000::nat) < 0x8000 + length [0xea :: u8]
   \<and> (0x1000 :: u64) - FIRMWARE_ADDR_2 = 0xFFFFFFFFFFFF9000"
  by (simp add: raspi2_init_def raspi_init_def raspi_init_check_ram_def is_power_of_2_def
      raspi_init_board_rev_def GiB_div_MiB [unfolded GiB_def MiB_def] clz64_values
      setup_boot_def load_image_targphys_def bcm283x_boards_def arm_load_kernel_def
      initial_state_def zero_boot_info_def BOARDSETUP_ADDR_def MVBAR_ADDR_def SMPBOOT_ADDR_def
      FIRMWARE_ADDR_2_def Let_def GiB_def MiB_def)

subsection \<open>The static descriptor across calls\<close>

text \<open>
  C8, as the code has it. The descriptor is one static object, all zero and not yet
  handed to the loader when the process starts, and reused by every call of
  \<open>setup_boot\<close>, whatever an earlier call left in it and whether or not the loader
  already holds it. A call for a supported generation overwrites the board id, the RAM
  size, the CPU count and the three trampoline fields. It assigns the four secure setup
  fields only for a generation that is at most 2, and \<open>entry\<close> and \<open>firmware_loaded\<close>
  only when a firmware image is supplied; otherwise these fields keep the values that the
  state before the call holds. The call ends by handing the loader the reference to the
  static, through which the loader reads the descriptor as the call left it.
\<close>

theorem setup_boot_static_descriptor:
  assumes "bcm283x_boards version = Some board"
    and "setup_boot st machine version ram_sz = Inr st'"
  shows "binfo_board_id (binfo st') = board_id board
       \<and> binfo_ram_size (binfo st') = ram_sz
       \<and> nb_cpus (binfo st') = smp_cpus machine
       \<and> smp_loader_start (binfo st') = SMPBOOT_ADDR
       \<and> write_secondary_boot (binfo st') =
            Some (if version = 2 then Write_smpboot else Write_smpboot64)
       \<and> secondary_cpu_reset_hook (binfo st') = Some Reset_secondary
       \<and> (if version \<le> 2
           then board_setup_addr (binfo st') = BOARDSETUP_ADDR
              \<and> write_board_setup (binfo st') = Some Write_board_setup
              \<and> secure_board_setup (binfo st') \<and> secure_boot (binfo st')
           else board_setup_addr (binfo st') = board_setup_addr (binfo st)
              \<and> write_board_setup (binfo st') = write_board_setup (binfo st)
              \<and> secure_board_setup (binfo st') = secure_board_setup (binfo st)
              \<and> secure_boot (binfo st') = secure_boot (binfo st))
       \<and> (case firmware machine of
             None \<Rightarrow> entry (binfo st') = entry (binfo st)
                   \<and> firmware_loaded (binfo st') = firmware_loaded (binfo st)
           | Some img \<Rightarrow>
               entry (binfo st') = (if version \<ge> 3 then FIRMWARE_ADDR_3 else FIRMWARE_ADDR_2)
               \<and> firmware_loaded (binfo st'))
       \<and> loader_info st' = Some Static_binfo
       \<and> loader_view st' = Some (binfo st')
       \<and> binfo initial_state = zero_boot_info
       \<and> loader_info initial_state = None"
proof -
  from boards_cases [OF assms(1)] have v: "version = 2 \<or> version = 3 \<or> version = 4" by auto
  show ?thesis
  proof (cases "firmware machine")
    case None
    from assms(2) [unfolded setup_boot_no_firmware [OF assms(1) None]]
    have "st' = arm_load_kernel (st\<lparr>binfo :=
       (let b0 = (binfo st)\<lparr>binfo_board_id := board_id board,
                               binfo_ram_size := ram_sz,
                               nb_cpus := smp_cpus machine\<rparr>;
            b1 = (if version = 2
                  then b0\<lparr>board_setup_addr := BOARDSETUP_ADDR,
                          write_board_setup := Some Write_board_setup,
                          secure_board_setup := True,
                          secure_boot := True\<rparr>
                  else b0)
        in b1\<lparr>smp_loader_start := SMPBOOT_ADDR,
              write_secondary_boot :=
                Some (if version = 2 then Write_smpboot else Write_smpboot64),
              secondary_cpu_reset_hook := Some Reset_secondary\<rparr>)\<rparr>)" by simp
    then show ?thesis using v None
      by (auto simp: arm_load_kernel_def loader_view_def initial_state_def Let_def)
  next
    case (Some img)
    from assms(2) [unfolded setup_boot_firmware [OF assms(1) Some] Let_def]
    have "st' = arm_load_kernel (st\<lparr>binfo :=
        (if version = 2
         then (binfo st)\<lparr>binfo_board_id := board_id board, binfo_ram_size := ram_sz,
                nb_cpus := smp_cpus machine, board_setup_addr := BOARDSETUP_ADDR,
                write_board_setup := Some Write_board_setup,
                secure_board_setup := True, secure_boot := True\<rparr>
         else (binfo st)\<lparr>binfo_board_id := board_id board, binfo_ram_size := ram_sz,
                nb_cpus := smp_cpus machine\<rparr>)
        \<lparr>smp_loader_start := SMPBOOT_ADDR,
         write_secondary_boot := Some (if version = 2 then Write_smpboot else Write_smpboot64),
         secondary_cpu_reset_hook := Some Reset_secondary,
         entry := (if version = 2 then FIRMWARE_ADDR_2 else FIRMWARE_ADDR_3),
         firmware_loaded := True\<rparr>,
        roms := (if img = [] then roms st
                 else roms st @ [\<lparr>rom_name = ''firmware'', rom_data = img,
                        rom_addr = (if version = 2 then FIRMWARE_ADDR_2 else FIRMWARE_ADDR_3)\<rparr>])\<rparr>)"
      by (simp split: if_splits)
    then show ?thesis using v Some
      by (auto simp: arm_load_kernel_def loader_view_def initial_state_def)
  qed
qed

text \<open>
  The hypotheses of C8's theorem at a second instantiation: generation 3 without
  firmware, from the state that a generation-2 call with a firmware image left and with
  the loader already holding the static. The board id and the injector are overwritten;
  the secure setup fields, \<open>entry\<close> and \<open>firmware_loaded\<close> are carried over.
\<close>

theorem setup_boot_static_descriptor_witness:
  "setup_boot
      \<lparr>binfo =
         \<lparr>binfo_board_id = 0xc43, binfo_ram_size = 0x3c000000, nb_cpus = 4,
          board_setup_addr = 0x420, write_board_setup = Some Write_board_setup,
          secure_board_setup = True, secure_boot = True, smp_loader_start = 0x300,
          write_secondary_boot = Some Write_smpboot,
          secondary_cpu_reset_hook = Some Reset_secondary, entry = 0x8000,
          firmware_loaded = True\<rparr>,
       roms = [\<lparr>rom_name = ''firmware'', rom_data = [0xea], rom_addr = 0x8000\<rparr>],
       loader_info = Some Static_binfo\<rparr>
      \<lparr>ram_size = 1 * GiB, smp_cpus = 4, firmware = None\<rparr> 3 0x3c000000 =
     Inr \<lparr>binfo =
         \<lparr>binfo_board_id = 0xc44, binfo_ram_size = 0x3c000000, nb_cpus = 4,
          board_setup_addr = 0x420, write_board_setup = Some Write_board_setup,
          secure_board_setup = True, secure_boot = True, smp_loader_start = 0x300,
          write_secondary_boot = Some Write_smpboot64,
          secondary_cpu_reset_hook = Some Reset_secondary, entry = 0x8000,
          firmware_loaded = True\<rparr>,
       roms = [\<lparr>rom_name = ''firmware'', rom_data = [0xea], rom_addr = 0x8000\<rparr>],
       loader_info = Some Static_binfo\<rparr>"
proof -
  have b: "bcm283x_boards 3 = Some (the (bcm283x_boards 3))"
    by (simp add: bcm283x_boards_def)
  have run: "setup_boot
      \<lparr>binfo =
         \<lparr>binfo_board_id = 0xc43, binfo_ram_size = 0x3c000000, nb_cpus = 4,
          board_setup_addr = 0x420, write_board_setup = Some Write_board_setup,
          secure_board_setup = True, secure_boot = True, smp_loader_start = 0x300,
          write_secondary_boot = Some Write_smpboot,
          secondary_cpu_reset_hook = Some Reset_secondary, entry = 0x8000,
          firmware_loaded = True\<rparr>,
       roms = [\<lparr>rom_name = ''firmware'', rom_data = [0xea], rom_addr = 0x8000\<rparr>],
       loader_info = Some Static_binfo\<rparr>
      \<lparr>ram_size = 1 * GiB, smp_cpus = 4, firmware = None\<rparr> 3 0x3c000000 =
     Inr \<lparr>binfo =
         \<lparr>binfo_board_id = 0xc44, binfo_ram_size = 0x3c000000, nb_cpus = 4,
          board_setup_addr = 0x420, write_board_setup = Some Write_board_setup,
          secure_board_setup = True, secure_boot = True, smp_loader_start = 0x300,
          write_secondary_boot = Some Write_smpboot64,
          secondary_cpu_reset_hook = Some Reset_secondary, entry = 0x8000,
          firmware_loaded = True\<rparr>,
       roms = [\<lparr>rom_name = ''firmware'', rom_data = [0xea], rom_addr = 0x8000\<rparr>],
       loader_info = Some Static_binfo\<rparr>"
    by (simp add: setup_boot_def bcm283x_boards_def arm_load_kernel_def SMPBOOT_ADDR_def Let_def)
  from setup_boot_static_descriptor [OF b run] run show ?thesis by simp
qed

text \<open>
  C8, as the specification words it: the descriptor of a call would not depend on an
  earlier instantiation in the same process, and would not change once the loader has
  it. A generation-2 call with a firmware image leaves a state in which the loader holds
  the static with board id \<open>0xc43\<close>. A generation-3 call without firmware from that
  state overwrites that same object (board id \<open>0xc44\<close>, the 64-bit injector) and
  leaves \<open>secure_boot\<close> set and \<open>entry\<close> at \<open>0x8000\<close>; the same generation-3 call
  in a new process has \<open>secure_boot\<close> clear and \<open>entry\<close> zero.
\<close>

theorem setup_boot_static_descriptor_counterexample:
  "setup_boot initial_state
      \<lparr>ram_size = 1 * GiB, smp_cpus = 4, firmware = Some [0xea]\<rparr> 2 0x3c000000 =
     Inr \<lparr>binfo =
         \<lparr>binfo_board_id = 0xc43, binfo_ram_size = 0x3c000000, nb_cpus = 4,
          board_setup_addr = 0x420, write_board_setup = Some Write_board_setup,
          secure_board_setup = True, secure_boot = True, smp_loader_start = 0x300,
          write_secondary_boot = Some Write_smpboot,
          secondary_cpu_reset_hook = Some Reset_secondary, entry = 0x8000,
          firmware_loaded = True\<rparr>,
       roms = [\<lparr>rom_name = ''firmware'', rom_data = [0xea], rom_addr = 0x8000\<rparr>],
       loader_info = Some Static_binfo\<rparr>
   \<and> setup_boot
      \<lparr>binfo =
         \<lparr>binfo_board_id = 0xc43, binfo_ram_size = 0x3c000000, nb_cpus = 4,
          board_setup_addr = 0x420, write_board_setup = Some Write_board_setup,
          secure_board_setup = True, secure_boot = True, smp_loader_start = 0x300,
          write_secondary_boot = Some Write_smpboot,
          secondary_cpu_reset_hook = Some Reset_secondary, entry = 0x8000,
          firmware_loaded = True\<rparr>,
       roms = [\<lparr>rom_name = ''firmware'', rom_data = [0xea], rom_addr = 0x8000\<rparr>],
       loader_info = Some Static_binfo\<rparr>
      \<lparr>ram_size = 1 * GiB, smp_cpus = 4, firmware = None\<rparr> 3 0x3c000000 =
     Inr \<lparr>binfo =
         \<lparr>binfo_board_id = 0xc44, binfo_ram_size = 0x3c000000, nb_cpus = 4,
          board_setup_addr = 0x420, write_board_setup = Some Write_board_setup,
          secure_board_setup = True, secure_boot = True, smp_loader_start = 0x300,
          write_secondary_boot = Some Write_smpboot64,
          secondary_cpu_reset_hook = Some Reset_secondary, entry = 0x8000,
          firmware_loaded = True\<rparr>,
       roms = [\<lparr>rom_name = ''firmware'', rom_data = [0xea], rom_addr = 0x8000\<rparr>],
       loader_info = Some Static_binfo\<rparr>
   \<and> setup_boot initial_state
      \<lparr>ram_size = 1 * GiB, smp_cpus = 4, firmware = None\<rparr> 3 0x3c000000 =
     Inr \<lparr>binfo =
         \<lparr>binfo_board_id = 0xc44, binfo_ram_size = 0x3c000000, nb_cpus = 4,
          board_setup_addr = 0, write_board_setup = None,
          secure_board_setup = False, secure_boot = False, smp_loader_start = 0x300,
          write_secondary_boot = Some Write_smpboot64,
          secondary_cpu_reset_hook = Some Reset_secondary, entry = 0,
          firmware_loaded = False\<rparr>,
       roms = [], loader_info = Some Static_binfo\<rparr>"
  by (simp add: setup_boot_def load_image_targphys_def bcm283x_boards_def arm_load_kernel_def
      initial_state_def zero_boot_info_def BOARDSETUP_ADDR_def MVBAR_ADDR_def SMPBOOT_ADDR_def
      FIRMWARE_ADDR_2_def Let_def)

end
